theory Spec2Isabelle
  imports Complex_Main
begin

section \<open>Data model of \<^verbatim>\<open>calculator.c\<close>\<close>

text \<open>
  The error codes are the \<^verbatim>\<open>#define\<close>d integers 0 to 13 of the source, in that order.
  The constructor names are the macro names (including the source's spelling
  \<^verbatim>\<open>EXPR_LENGHT_MAXIMUM\<close>).
\<close>

datatype error_code =
    SUCCESS
  | DIVISION_BY_ZERO
  | INVALID_OPERATOR
  | STACK_UNDERFLOW
  | MEMORY_ERROR
  | UNDEFINED_VARIABLE
  | STACK_MAXIMUM
  | EXPR_LENGHT_MAXIMUM
  | FACTORIAL_ERROR
  | SQUARE_ROOT_INVALID_OPERATOR
  | LOG_ERROR
  | LN_ERROR
  | TAN_INVALID_OPERATOR
  | INVALID_TRIG_OPERATOR

definition MAX_STACK_SIZE :: nat where
  "MAX_STACK_SIZE = 100"

definition MAX_EXPR_LENGTH :: nat where
  "MAX_EXPR_LENGTH = 1000"

text \<open>
  A C \<^verbatim>\<open>double\<close> is modelled by a real number: arithmetic is exact, there is no
  overflow to infinity and no NaN. Where the source would produce an infinity or a NaN
  (the literals \<^verbatim>\<open>inf\<close> and \<^verbatim>\<open>nan\<close> accepted by \<^verbatim>\<open>strtod\<close>, a pole or a
  domain error of \<^verbatim>\<open>pow\<close>) the model stops with the fault \<open>NonFinite\<close>: such runs
  are outside the model, and nothing is stated about them.
\<close>

type_synonym double = real

text \<open>The two constants are as the source defines them when \<^verbatim>\<open>math.h\<close> does not.\<close>

definition M_PI :: double where
  "M_PI = 3.14159265358979323846"

definition M_E :: double where
  "M_E = 2.71828182845904523536"

record CalculationResult =
  calc_value :: double
  calc_error :: error_code

text \<open>
  The source's \<^verbatim>\<open>ReversePolishExpression\<close> is a pointer to an array of C strings and
  a separate \<^verbatim>\<open>length\<close> field. The array is a list of strings, \<open>None\<close> stands for
  a null \<^verbatim>\<open>expression\<close> pointer (or a null \<^verbatim>\<open>rpn\<close>), and the length field is kept
  as it is, since the loops run up to it and not up to the size of the array.
\<close>

record ReversePolishExpression =
  rpn_expression :: "string list option"
  rpn_length :: nat

record Variable =
  var_name :: string
  var_value :: double

record ConversionResult =
  conv_expression :: string
  conv_error :: error_code

text \<open>
  What a run can do other than return: undefined behaviour of C (a write past the end
  of a stack array, a read past the end of the token array, a \<^verbatim>\<open>double\<close> to
  \<^verbatim>\<open>int\<close> cast out of range, signed overflow of the loop counter), or a non-finite
  \<^verbatim>\<open>double\<close>.
\<close>

datatype fault =
    StackOutOfBounds
  | TokenOutOfBounds
  | IntCastRange
  | IntOverflow
  | NonFinite

text \<open>
  One pass of a token loop either continues with the new stack, returns early with an
  error code, or faults.
\<close>

datatype 's flow = Next 's | Halt error_code | Fault fault

text \<open>
  The expression the callers build: the length field is the number of tokens.
\<close>

definition rpn_of :: "string list \<Rightarrow> ReversePolishExpression" where
  "rpn_of tokens = \<lparr>rpn_expression = Some tokens, rpn_length = length tokens\<rparr>"

section \<open>Variable table\<close>

text \<open>
  The global table \<^verbatim>\<open>variables\<close> with its counter \<^verbatim>\<open>variable_count\<close> is the list of
  its first \<^verbatim>\<open>variable_count\<close> entries. \<^verbatim>\<open>init_default_variables\<close> resets the counter
  and stores the two constants, whatever the table held before.
\<close>

definition init_default_variables :: "Variable list" where
  "init_default_variables =
     [\<lparr>var_name = ''pi'', var_value = M_PI\<rparr>, \<lparr>var_name = ''e'', var_value = M_E\<rparr>]"

text \<open>
  \<^verbatim>\<open>get_variable_value\<close> returns the value of the first entry of that name; when there
  is none it stores \<^verbatim>\<open>UNDEFINED_VARIABLE\<close> through the pointer and returns 0.0. The
  pointer's target is passed in and returned.
\<close>

fun get_variable_value :: "Variable list \<Rightarrow> string \<Rightarrow> error_code \<Rightarrow> double \<times> error_code" where
  "get_variable_value [] name ec = (0, UNDEFINED_VARIABLE)"
| "get_variable_value (v # vs) name ec =
     (if var_name v = name then (var_value v, ec) else get_variable_value vs name ec)"

section \<open>Token classifier\<close>

definition is_operator :: "string \<Rightarrow> bool" where
  "is_operator token \<longleftrightarrow>
     token = ''+'' \<or> token = ''-'' \<or> token = ''*'' \<or> token = ''/'' \<or> token = ''^'' \<or>
     token = ''!'' \<or> token = ''sqrt'' \<or> token = ''sin'' \<or> token = ''cos'' \<or>
     token = ''tan'' \<or> token = ''arcsin'' \<or> token = ''arccos'' \<or> token = ''arctan'' \<or>
     token = ''log'' \<or> token = ''ln'' \<or> token = ''ans''"

subsection \<open>The C library's \<^verbatim>\<open>strtod\<close>\<close>

text \<open>
  \<^verbatim>\<open>strtod\<close> is the C library's; it is modelled after the C standard (7.22.1.3, in
  the C locale): leading white space, an optional sign, then the longest of a decimal
  floating constant, a hexadecimal one, \<^verbatim>\<open>inf\<close>/\<^verbatim>\<open>infinity\<close>, or \<^verbatim>\<open>nan\<close> with an
  optional parenthesised character sequence. The model returns the value (\<open>None\<close>
  for an infinity or a NaN) and the rest of the string that \<^verbatim>\<open>endptr\<close> points to;
  when no conversion is performed, the value is zero and \<^verbatim>\<open>endptr\<close> is the whole
  string.
\<close>

definition isspace :: "char \<Rightarrow> bool" where
  "isspace c \<longleftrightarrow> c = CHR '' '' \<or> c = CHR 0x09 \<or> c = CHR 0x0A \<or> c = CHR 0x0B \<or>
     c = CHR 0x0C \<or> c = CHR 0x0D"

definition isdigit :: "char \<Rightarrow> bool" where
  "isdigit c \<longleftrightarrow> 48 \<le> (of_char c :: nat) \<and> (of_char c :: nat) \<le> 57"

definition isxdigit :: "char \<Rightarrow> bool" where
  "isxdigit c \<longleftrightarrow> isdigit c \<or> (97 \<le> (of_char c :: nat) \<and> (of_char c :: nat) \<le> 102) \<or>
     (65 \<le> (of_char c :: nat) \<and> (of_char c :: nat) \<le> 70)"

definition isalpha :: "char \<Rightarrow> bool" where
  "isalpha c \<longleftrightarrow> (97 \<le> (of_char c :: nat) \<and> (of_char c :: nat) \<le> 122) \<or>
     (65 \<le> (of_char c :: nat) \<and> (of_char c :: nat) \<le> 90)"

definition tolower :: "char \<Rightarrow> char" where
  "tolower c = (if 65 \<le> (of_char c :: nat) \<and> (of_char c :: nat) \<le> 90
                then char_of ((of_char c :: nat) + 32) else c)"

definition xdigit_val :: "char \<Rightarrow> nat" where
  "xdigit_val c = (if isdigit c then of_char c - 48 else of_char (tolower c) - 87)"

definition digits_val :: "nat \<Rightarrow> string \<Rightarrow> nat" where
  "digits_val base ds = foldl (\<lambda>acc c. acc * base + xdigit_val c) 0 ds"

definition scan_sign :: "string \<Rightarrow> bool \<times> string" where
  "scan_sign s =
     (case s of
        [] \<Rightarrow> (False, s)
      | c # r \<Rightarrow> if c = CHR ''-'' then (True, r) else if c = CHR ''+'' then (False, r)
                 else (False, s))"

text \<open>Integer digits, fraction digits (after a consumed radix point) and the rest.\<close>

definition scan_mantissa :: "(char \<Rightarrow> bool) \<Rightarrow> string \<Rightarrow> string \<times> string \<times> string" where
  "scan_mantissa isd s =
     (let ip = takeWhile isd s; r1 = dropWhile isd s in
      case r1 of
        [] \<Rightarrow> (ip, [], r1)
      | c # r2 \<Rightarrow> if c = CHR ''.'' then (ip, takeWhile isd r2, dropWhile isd r2)
                  else (ip, [], r1))"

text \<open>
  An exponent part is the marker (\<^verbatim>\<open>e\<close> or \<^verbatim>\<open>p\<close>, either case), an optional sign and
  at least one decimal digit; without a digit nothing of it is consumed.
\<close>

definition scan_exponent :: "char \<Rightarrow> string \<Rightarrow> int \<times> string" where
  "scan_exponent marker s =
     (case s of
        [] \<Rightarrow> (0, s)
      | c # r \<Rightarrow>
          if tolower c = marker then
            (let (neg, r1) = scan_sign r; ds = takeWhile isdigit r1 in
             if ds = [] then (0, s)
             else ((if neg then - int (digits_val 10 ds) else int (digits_val 10 ds)),
                   dropWhile isdigit r1))
          else (0, s))"

definition scale :: "real \<Rightarrow> nat \<Rightarrow> int \<Rightarrow> real" where
  "scale m b e = (if 0 \<le> e then m * real b ^ nat e else m / real b ^ nat (- e))"

definition scan_decimal :: "string \<Rightarrow> (double \<times> string) option" where
  "scan_decimal s =
     (let (ip, fp, r) = scan_mantissa isdigit s in
      if ip = [] \<and> fp = [] then None
      else (let (e, r') = scan_exponent (CHR ''e'') r in
            Some (scale (real (digits_val 10 (ip @ fp))) 10 (e - int (length fp)), r')))"

definition scan_hex :: "string \<Rightarrow> (double \<times> string) option" where
  "scan_hex s =
     (case s of
        z # x # r \<Rightarrow>
          if z = CHR ''0'' \<and> tolower x = CHR ''x'' then
            (let (ip, fp, r1) = scan_mantissa isxdigit r in
             if ip = [] \<and> fp = [] then None
             else (let (e, r') = scan_exponent (CHR ''p'') r1 in
                   Some (scale (real (digits_val 16 (ip @ fp))) 2 (e - 4 * int (length fp)), r')))
          else None
      | _ \<Rightarrow> None)"

definition scan_special :: "string \<Rightarrow> string option" where
  "scan_special s =
     (let l = map tolower s in
      if take 8 l = ''infinity'' then Some (drop 8 s)
      else if take 3 l = ''inf'' then Some (drop 3 s)
      else if take 3 l = ''nan'' then
        Some (let r = drop 3 s in
              case r of
                [] \<Rightarrow> r
              | c # r1 \<Rightarrow>
                  if c = CHR ''('' then
                    (case dropWhile (\<lambda>d. isdigit d \<or> isalpha d \<or> d = CHR ''_'') r1 of
                       [] \<Rightarrow> r
                     | d # r3 \<Rightarrow> if d = CHR '')'' then r3 else r)
                  else r)
      else None)"

definition strtod :: "string \<Rightarrow> double option \<times> string" where
  "strtod nptr =
     (let (neg, s) = scan_sign (dropWhile isspace nptr) in
      case scan_hex s of
        Some (v, endptr) \<Rightarrow> (Some (if neg then - v else v), endptr)
      | None \<Rightarrow>
          (case scan_decimal s of
             Some (v, endptr) \<Rightarrow> (Some (if neg then - v else v), endptr)
           | None \<Rightarrow>
               (case scan_special s of
                  Some endptr \<Rightarrow> (None, endptr)
                | None \<Rightarrow> (Some 0, nptr))))"

definition atof :: "string \<Rightarrow> double option" where
  "atof nptr = fst (strtod nptr)"

subsection \<open>\<^verbatim>\<open>is_number\<close>\<close>

text \<open>
  \<^verbatim>\<open>*endptr == '\0' || (*endptr == '\n' && endptr[1] == '\0')\<close>: what is left after the
  conversion is empty or a single newline. The source does not compare \<^verbatim>\<open>endptr\<close> with
  \<^verbatim>\<open>token\<close>.
\<close>

definition is_number :: "string \<Rightarrow> bool" where
  "is_number token \<longleftrightarrow> (let endptr = snd (strtod token) in endptr = [] \<or> endptr = [CHR 0x0A])"

section \<open>Operator evaluator\<close>

text \<open>
  The C library's \<^verbatim>\<open>round\<close> rounds halfway cases away from zero; the cast
  \<^verbatim>\<open>(int)n\<close> truncates towards zero and is undefined when the truncated value is not
  an \<^verbatim>\<open>int\<close> (32 bits); \<^verbatim>\<open>fmod\<close> is the remainder of the truncated quotient;
  \<^verbatim>\<open>pow\<close> follows Annex F of the C standard where its result is finite.
\<close>

definition c_trunc :: "double \<Rightarrow> int" where
  "c_trunc x = (if 0 \<le> x then \<lfloor>x\<rfloor> else \<lceil>x\<rceil>)"

definition c_round :: "double \<Rightarrow> double" where
  "c_round x = (if 0 \<le> x then of_int \<lfloor>x + 1 / 2\<rfloor> else of_int \<lceil>x - 1 / 2\<rceil>)"

definition int_of_double :: "double \<Rightarrow> int option" where
  "int_of_double x =
     (if - 2147483648 \<le> c_trunc x \<and> c_trunc x \<le> 2147483647 then Some (c_trunc x) else None)"

definition c_fmod :: "double \<Rightarrow> double \<Rightarrow> double" where
  "c_fmod x y = x - of_int (c_trunc (x / y)) * y"

definition c_pow :: "double \<Rightarrow> double \<Rightarrow> double option" where
  "c_pow x y =
     (if y = 0 then Some 1
      else if 0 < x then Some (x powr y)
      else if x = 0 then (if 0 < y then Some 0 else None)
      else if y = of_int \<lfloor>y\<rfloor> then Some (x powi \<lfloor>y\<rfloor>)
      else None)"

text \<open>
  The loop of \<^verbatim>\<open>factorial\<close>: \<^verbatim>\<open>for (int i = 1; i <= (int)n; i++) result *= i;\<close>.
  When the bound is \<^verbatim>\<open>INT_MAX\<close> the increment overflows.
\<close>

function fact_loop :: "int \<Rightarrow> int \<Rightarrow> double \<Rightarrow> fault + double" where
  "fact_loop i n result =
     (if i \<le> n then
        (if i = 2147483647 then Inl IntOverflow
         else fact_loop (i + 1) n (result * of_int i))
      else Inr result)"
  by pat_completeness auto
termination
  by (relation "measure (\<lambda>(i, n, result). nat (n + 1 - i))") auto

declare fact_loop.simps [simp del]

text \<open>
  \<^verbatim>\<open>factorial\<close> returns the product and leaves the error code as it was, or stores
  \<^verbatim>\<open>FACTORIAL_ERROR\<close> and returns \<^verbatim>\<open>NAN\<close>, which is \<open>None\<close> here.
\<close>

definition factorial :: "double \<Rightarrow> error_code \<Rightarrow> fault + (double option \<times> error_code)" where
  "factorial n ec =
     (if n < 0 then Inr (None, FACTORIAL_ERROR)
      else case int_of_double n of
        None \<Rightarrow> Inl IntCastRange
      | Some k \<Rightarrow>
          if n \<noteq> of_int k then Inr (None, FACTORIAL_ERROR)
          else if n = 0 \<or> n = 1 then Inr (Some 1, ec)
          else (case fact_loop 1 k 1 of
                  Inl f \<Rightarrow> Inl f
                | Inr result \<Rightarrow> Inr (Some result, ec)))"

definition round_to_9_decimals :: "double \<Rightarrow> double" where
  "round_to_9_decimals v = c_round (v * 1000000000) / 1000000000"

text \<open>
  \<^verbatim>\<open>apply_operator\<close> returns a \<^verbatim>\<open>double\<close> and may store an error code through its
  pointer argument: the model takes the pointer's target \<open>ec\<close> and returns the pair.
  The named functions are tested first, then the tokens of one character; every other
  token stores \<^verbatim>\<open>INVALID_OPERATOR\<close> (the value computed from the unset local
  \<^verbatim>\<open>result\<close> just before is dropped).
\<close>

definition apply_operator ::
  "string \<Rightarrow> double \<Rightarrow> double \<Rightarrow> error_code \<Rightarrow> fault + (double \<times> error_code)" where
  "apply_operator op a b ec =
     (if op = ''sqrt'' then
        (if a < 0 then Inr (0, SQUARE_ROOT_INVALID_OPERATOR)
         else Inr (round_to_9_decimals (sqrt a), ec))
      else if op = ''sin'' then Inr (round_to_9_decimals (sin a), ec)
      else if op = ''cos'' then Inr (round_to_9_decimals (cos a), ec)
      else if op = ''tan'' then
        (if c_fmod \<bar>a\<bar> M_PI = M_PI / 2 then Inr (0, TAN_INVALID_OPERATOR)
         else Inr (round_to_9_decimals (tan a), ec))
      else if op = ''arcsin'' then
        (if a < - 1 \<or> 1 < a then Inr (0, INVALID_TRIG_OPERATOR)
         else Inr (round_to_9_decimals (arcsin a), ec))
      else if op = ''arccos'' then
        (if a < - 1 \<or> 1 < a then Inr (0, INVALID_TRIG_OPERATOR)
         else Inr (round_to_9_decimals (arccos a), ec))
      else if op = ''arctan'' then Inr (round_to_9_decimals (arctan a), ec)
      else if op = ''log'' then
        (if a \<le> 0 then Inr (0, LOG_ERROR)
         else Inr (round_to_9_decimals (log 10 a), ec))
      else if op = ''ln'' then
        (if a \<le> 0 then Inr (0, LN_ERROR)
         else Inr (round_to_9_decimals (ln a), ec))
      else if length op = 1 then
        (let c = hd op in
         if c = CHR ''+'' then Inr (round_to_9_decimals (a + b), ec)
         else if c = CHR ''-'' then Inr (round_to_9_decimals (a - b), ec)
         else if c = CHR ''*'' then Inr (round_to_9_decimals (a * b), ec)
         else if c = CHR ''/'' then
           (if b = 0 then Inr (0, DIVISION_BY_ZERO)
            else Inr (round_to_9_decimals (a / b), ec))
         else if c = CHR ''^'' then
           (case c_pow a b of
              None \<Rightarrow> Inl NonFinite
            | Some result \<Rightarrow> Inr (round_to_9_decimals result, ec))
         else if c = CHR ''!'' then
           (if b \<noteq> 0 then Inr (0, INVALID_OPERATOR)
            else (case factorial a ec of
                    Inl f \<Rightarrow> Inl f
                  | Inr (result, ec') \<Rightarrow>
                      if ec' \<noteq> SUCCESS then Inr (0, ec')
                      else (case result of
                              None \<Rightarrow> Inl NonFinite
                            | Some v \<Rightarrow> Inr (round_to_9_decimals v, ec'))))
         else Inr (0, INVALID_OPERATOR))
      else Inr (0, INVALID_OPERATOR))"

section \<open>RPN evaluator\<close>

text \<open>
  The test that sends an operator token to the one-operand branch of \<^verbatim>\<open>evaluate_rpn\<close>
  (\<^verbatim>\<open>token[0] == '!' || strcmp(token, "sqrt") == 0 || ...\<close>). The first character of an
  empty C string is its terminator, so \<^verbatim>\<open>token[0] == '!'\<close> says that the token starts
  with that character.
\<close>

definition unary_token :: "string \<Rightarrow> bool" where
  "unary_token token \<longleftrightarrow>
     take 1 token = ''!'' \<or> token = ''sqrt'' \<or> token = ''sin'' \<or>
     token = ''cos'' \<or> token = ''tan'' \<or> token = ''arcsin'' \<or> token = ''arccos'' \<or>
     token = ''arctan'' \<or> token = ''log'' \<or> token = ''ln''"

text \<open>
  The operand stack \<^verbatim>\<open>stack[0..stack_top]\<close> is a list with the top first, so
  \<^verbatim>\<open>stack_top + 1\<close> is its length. One iteration of the loop, for the expression
  length \<open>n\<close> and the variable table \<open>vars\<close>:
\<close>

definition evaluate_token ::
  "nat \<Rightarrow> Variable list \<Rightarrow> string \<Rightarrow> double list \<Rightarrow> double list flow" where
  "evaluate_token n vars token stack =
     (if is_operator token then
        (if unary_token token then
           (case stack of
              [] \<Rightarrow> Halt INVALID_OPERATOR
            | a # rest \<Rightarrow>
                (case apply_operator token a 0 SUCCESS of
                   Inl f \<Rightarrow> Fault f
                 | Inr (op_result, ec) \<Rightarrow>
                     if ec \<noteq> SUCCESS then Halt ec else Next (op_result # rest)))
         else
           (case stack of
              b # a # rest \<Rightarrow>
                (case apply_operator token a b SUCCESS of
                   Inl f \<Rightarrow> Fault f
                 | Inr (op_result, ec) \<Rightarrow>
                     if ec \<noteq> SUCCESS then Halt ec else Next (op_result # rest))
            | _ \<Rightarrow> Halt STACK_UNDERFLOW))
      else if is_number token then
        (if MAX_STACK_SIZE \<le> length stack then Halt STACK_MAXIMUM
         else (case atof token of
                 None \<Rightarrow> Fault NonFinite
               | Some v \<Rightarrow>
                   if MAX_EXPR_LENGTH < n then Halt EXPR_LENGHT_MAXIMUM
                   else Next (v # stack)))
      else
        (case get_variable_value vars token SUCCESS of
           (v, ec) \<Rightarrow>
             if ec \<noteq> SUCCESS then Halt ec
             else if MAX_STACK_SIZE \<le> length stack then Fault StackOutOfBounds
             else Next (v # stack)))"

text \<open>The loop over the tokens stops at the first iteration that does not continue.\<close>

fun evaluate_loop ::
  "nat \<Rightarrow> Variable list \<Rightarrow> string list \<Rightarrow> double list \<Rightarrow> double list flow" where
  "evaluate_loop n vars [] stack = Next stack"
| "evaluate_loop n vars (token # tokens) stack =
     (case evaluate_token n vars token stack of
        Next stack' \<Rightarrow> evaluate_loop n vars tokens stack'
      | Halt e \<Rightarrow> Halt e
      | Fault f \<Rightarrow> Fault f)"

text \<open>
  \<^verbatim>\<open>evaluate_rpn\<close>: the loop reads \<^verbatim>\<open>expression[i]\<close> for \<^verbatim>\<open>i < length\<close>, that is the
  first \<^verbatim>\<open>length\<close> tokens, and then past the end of the array when the length field
  exceeds its size. On every early return the value is the initial 0.0.
\<close>

definition evaluate_rpn :: "ReversePolishExpression \<Rightarrow> fault + CalculationResult" where
  "evaluate_rpn rpn =
     (case rpn_expression rpn of
        None \<Rightarrow> Inr \<lparr>calc_value = 0, calc_error = MEMORY_ERROR\<rparr>
      | Some tokens \<Rightarrow>
          (case evaluate_loop (rpn_length rpn) init_default_variables
                  (take (rpn_length rpn) tokens) [] of
             Fault f \<Rightarrow> Inl f
           | Halt e \<Rightarrow> Inr \<lparr>calc_value = 0, calc_error = e\<rparr>
           | Next stack \<Rightarrow>
               if length tokens < rpn_length rpn then Inl TokenOutOfBounds
               else (case stack of
                       [v] \<Rightarrow> Inr \<lparr>calc_value = v, calc_error = SUCCESS\<rparr>
                     | _ \<Rightarrow> Inr \<lparr>calc_value = 0, calc_error = STACK_UNDERFLOW\<rparr>)))"

section \<open>Infix converter\<close>

text \<open>
  The character constant \<^verbatim>\<open>'\<surd>'\<close> of \<^verbatim>\<open>needs_parentheses\<close> holds the three bytes
  E2 88 9A of the source file, so it is an \<^verbatim>\<open>int\<close> constant of several characters
  (0xE2889A), with which the \<^verbatim>\<open>char\<close> \<^verbatim>\<open>op\<close> is compared after promotion.
\<close>

definition SQRT_SYMBOL :: int where
  "SQRT_SYMBOL = 14846106"

fun needs_parentheses_scan :: "string \<Rightarrow> char \<Rightarrow> bool" where
  "needs_parentheses_scan [] op = False"
| "needs_parentheses_scan (c # cs) op =
     (if op = CHR ''!'' \<or> of_char op = SQRT_SYMBOL then True
      else if (op = CHR ''*'' \<or> op = CHR ''/'') \<and> (c = CHR ''+'' \<or> c = CHR ''-'') then True
      else if op = CHR ''^'' \<and> (c = CHR ''*'' \<or> c = CHR ''/'') then True
      else needs_parentheses_scan cs op)"

definition needs_parentheses :: "string \<Rightarrow> char \<Rightarrow> bool" where
  "needs_parentheses expr op =
     (if length expr \<le> 1 then False
      else if hd expr = CHR ''('' \<and> last expr = CHR '')'' then False
      else needs_parentheses_scan expr op)"

text \<open>
  \<^verbatim>\<open>snprintf(expr, new_len, "%s%s%s %c %s%s%s", ...)\<close> writes at most
  \<^verbatim>\<open>new_len - 1\<close> characters of the formatted text.
\<close>

definition combine :: "string \<Rightarrow> string \<Rightarrow> string \<Rightarrow> string" where
  "combine a token b =
     (let new_len = length a + length b + 10;
          need_parens_a = needs_parentheses a (hd token);
          need_parens_b = needs_parentheses b (hd token)
      in take (new_len - 1)
           ((if need_parens_a then [CHR ''(''] else []) @ a @
            (if need_parens_a then [CHR '')''] else []) @
            [CHR '' '', hd token, CHR '' ''] @
            (if need_parens_b then [CHR ''(''] else []) @ b @
            (if need_parens_b then [CHR '')''] else [])))"

text \<open>
  One iteration of the loop of \<^verbatim>\<open>rpn_to_infix\<close>. Each iteration that gets as far calls
  \<^verbatim>\<open>malloc\<close> once; \<open>ok\<close> says whether that call returns memory. The stack of partial
  expressions has its top first.
\<close>

definition infix_token :: "bool \<Rightarrow> string \<Rightarrow> string list \<Rightarrow> string list flow" where
  "infix_token ok token stack =
     (if \<not> is_operator token then
        (if \<not> ok then Halt MEMORY_ERROR
         else if MAX_STACK_SIZE \<le> length stack then Fault StackOutOfBounds
         else Next (token # stack))
      else
        (case stack of
           b # a # rest \<Rightarrow>
             if \<not> ok then Halt MEMORY_ERROR else Next (combine a token b # rest)
         | _ \<Rightarrow> Halt STACK_UNDERFLOW))"

text \<open>
  The loop, from token index \<open>i\<close> on; \<open>malloc_ok i\<close> says whether the allocation made
  for the token of index \<open>i\<close> succeeds.
\<close>

fun infix_loop :: "(nat \<Rightarrow> bool) \<Rightarrow> nat \<Rightarrow> string list \<Rightarrow> string list \<Rightarrow> string list flow" where
  "infix_loop malloc_ok i [] stack = Next stack"
| "infix_loop malloc_ok i (token # tokens) stack =
     (case infix_token (malloc_ok i) token stack of
        Next stack' \<Rightarrow> infix_loop malloc_ok (Suc i) tokens stack'
      | Halt e \<Rightarrow> Halt e
      | Fault f \<Rightarrow> Fault f)"

text \<open>
  \<^verbatim>\<open>rpn_to_infix\<close>: on an early return the text is the initial empty string; the final
  \<^verbatim>\<open>strncpy\<close> keeps at most \<^verbatim>\<open>MAX_EXPR_LENGTH - 1\<close> characters.
\<close>

definition rpn_to_infix ::
  "(nat \<Rightarrow> bool) \<Rightarrow> ReversePolishExpression \<Rightarrow> fault + ConversionResult" where
  "rpn_to_infix malloc_ok rpn =
     (case rpn_expression rpn of
        None \<Rightarrow> Inr \<lparr>conv_expression = [], conv_error = MEMORY_ERROR\<rparr>
      | Some tokens \<Rightarrow>
          (case infix_loop malloc_ok 0 (take (rpn_length rpn) tokens) [] of
             Fault f \<Rightarrow> Inl f
           | Halt e \<Rightarrow> Inr \<lparr>conv_expression = [], conv_error = e\<rparr>
           | Next stack \<Rightarrow>
               if length tokens < rpn_length rpn then Inl TokenOutOfBounds
               else (case stack of
                       [s] \<Rightarrow> Inr \<lparr>conv_expression = take (MAX_EXPR_LENGTH - 1) s,
                                   conv_error = SUCCESS\<rparr>
                     | _ \<Rightarrow> Inr \<lparr>conv_expression = [], conv_error = STACK_UNDERFLOW\<rparr>)))"

section \<open>Reading results\<close>

text \<open>The error code of a run that returns.\<close>

definition error_of :: "fault + CalculationResult \<Rightarrow> error_code option" where
  "error_of r = (case r of Inl f \<Rightarrow> None | Inr c \<Rightarrow> Some (calc_error c))"

section \<open>Unfolding and the loops\<close>

lemmas strtod_defs = strtod_def scan_sign_def scan_hex_def scan_decimal_def scan_mantissa_def
  scan_special_def scan_exponent_def isspace_def isdigit_def tolower_def scale_def digits_val_def
  xdigit_val_def

lemmas classify_defs = is_operator_def unary_token_def is_number_def atof_def strtod_defs

lemmas limit_defs = MAX_STACK_SIZE_def MAX_EXPR_LENGTH_def

lemmas operator_defs = apply_operator_def factorial_def int_of_double_def c_trunc_def
  round_to_9_decimals_def c_round_def

lemmas evaluate_defs = evaluate_rpn_def rpn_of_def evaluate_token_def classify_defs limit_defs
  init_default_variables_def

lemmas infix_defs = rpn_to_infix_def rpn_of_def infix_token_def combine_def needs_parentheses_def
  SQRT_SYMBOL_def is_operator_def limit_defs

lemma evaluate_loop_append:
  "evaluate_loop n vars (xs @ ys) stack =
     (case evaluate_loop n vars xs stack of
        Next stack' \<Rightarrow> evaluate_loop n vars ys stack'
      | Halt e \<Rightarrow> Halt e
      | Fault f \<Rightarrow> Fault f)"
  by (induction xs arbitrary: stack) (auto split: flow.splits)

lemma infix_loop_append:
  "infix_loop ok i (xs @ ys) stack =
     (case infix_loop ok i xs stack of
        Next stack' \<Rightarrow> infix_loop ok (i + length xs) ys stack'
      | Halt e \<Rightarrow> Halt e
      | Fault f \<Rightarrow> Fault f)"
  by (induction xs arbitrary: stack i) (auto split: flow.splits)

text \<open>
  A token on which the iteration returns early, after a prefix that ran through, decides
  the result, whatever follows it.
\<close>

lemma evaluate_rpn_halts:
  assumes "evaluate_loop (length (pre @ token # post)) init_default_variables pre [] = Next stack"
    and "evaluate_token (length (pre @ token # post)) init_default_variables token stack = Halt e"
  shows "evaluate_rpn (rpn_of (pre @ token # post)) = Inr \<lparr>calc_value = 0, calc_error = e\<rparr>"
  using assms by (simp add: evaluate_rpn_def rpn_of_def evaluate_loop_append)

lemma rpn_to_infix_halts:
  assumes "infix_loop ok 0 pre [] = Next stack"
    and "infix_token (ok (length pre)) token stack = Halt e"
  shows "rpn_to_infix ok (rpn_of (pre @ token # post)) =
           Inr \<lparr>conv_expression = [], conv_error = e\<rparr>"
  using assms by (simp add: rpn_to_infix_def rpn_of_def infix_loop_append)

text \<open>No \<^verbatim>\<open>char\<close> equals the constant \<^verbatim>\<open>'\<surd>'\<close>.\<close>

lemma of_char_not_sqrt_symbol: "(of_char c :: int) \<noteq> SQRT_SYMBOL"
proof -
  have "(of_char c :: nat) < 256" by simp
  then have "(of_char c :: int) < 256"
    by (metis of_nat_of_char of_nat_less_iff of_nat_numeral)
  then show ?thesis by (simp add: SQRT_SYMBOL_def)
qed

lemma apply_operator_ans: "apply_operator ''ans'' a b ec = Inr (0, INVALID_OPERATOR)"
  by (simp add: apply_operator_def)

text \<open>
  Operator tokens and the depth of the stack: what the two branches of \<^verbatim>\<open>evaluate_rpn\<close>
  do without enough operands, and which codes they cannot give with enough of them.
\<close>

lemma unary_on_empty: "is_operator token \<Longrightarrow> unary_token token \<Longrightarrow>
   evaluate_token n vars token [] = Halt INVALID_OPERATOR"
  by (simp add: evaluate_token_def)

lemma binary_underflow: "is_operator token \<Longrightarrow> \<not> unary_token token \<Longrightarrow> length stack < 2 \<Longrightarrow>
   evaluate_token n vars token stack = Halt STACK_UNDERFLOW"
  by (cases stack; cases "tl stack") (auto simp add: evaluate_token_def)

lemma factorial_error: "factorial a SUCCESS = Inr (r, ec) \<Longrightarrow> ec = SUCCESS \<or> ec = FACTORIAL_ERROR"
  unfolding factorial_def
  by (simp split: if_splits option.splits sum.splits)

lemma unary_applied:
  assumes "is_operator token" "unary_token token"
  shows "evaluate_token n vars token (a # rest) \<noteq> Halt INVALID_OPERATOR \<and>
         evaluate_token n vars token (a # rest) \<noteq> Halt STACK_UNDERFLOW"
  using assms(1) unfolding is_operator_def
  apply (elim disjE)
  using assms(2)
  by (auto simp add: unary_token_def evaluate_token_def is_operator_def apply_operator_def
        split: sum.splits option.splits prod.splits dest: factorial_error)

lemma binary_applied:
  assumes "is_operator token" "\<not> unary_token token"
  shows "evaluate_token n vars token (b # a # rest) \<noteq> Halt STACK_UNDERFLOW"
  using assms(1) unfolding is_operator_def
  apply (elim disjE)
  using assms(2)
  by (auto simp add: unary_token_def evaluate_token_def is_operator_def apply_operator_def
        split: sum.splits option.splits prod.splits)

section \<open>The factorial operator\<close>

text \<open>
  C1, as the spec states it: \<^verbatim>\<open>evaluate(["5","2","!"])\<close> fails with
  \<^verbatim>\<open>InvalidOperator\<close>. It does not: \<^verbatim>\<open>!\<close> takes the one-operand branch, which pops
  only the 2 and passes 0 as second operand, so two values are left at the end and the
  run fails with \<^verbatim>\<open>StackUnderflow\<close>.
\<close>

theorem C1_counterexample:
  "evaluate_rpn (rpn_of [''5'', ''2'', ''!'']) =
     Inr \<lparr>calc_value = 0, calc_error = STACK_UNDERFLOW\<rparr> \<and>
   error_of (evaluate_rpn (rpn_of [''5'', ''2'', ''!''])) \<noteq> Some INVALID_OPERATOR"
  by (simp add: evaluate_defs operator_defs fact_loop.simps error_of_def)

text \<open>
  C1, amended: \<^verbatim>\<open>evaluate(["5","!"])\<close> returns 120 with \<^verbatim>\<open>Success\<close>;
  \<^verbatim>\<open>evaluate(["5","2","!"])\<close> fails with \<^verbatim>\<open>StackUnderflow\<close>; and the operator
  evaluator itself rejects a nonzero second operand of \<^verbatim>\<open>!\<close> with
  \<^verbatim>\<open>InvalidOperator\<close>.
\<close>

theorem C1_factorial:
  "evaluate_rpn (rpn_of [''5'', ''!'']) = Inr \<lparr>calc_value = 120, calc_error = SUCCESS\<rparr> \<and>
   evaluate_rpn (rpn_of [''5'', ''2'', ''!'']) =
     Inr \<lparr>calc_value = 0, calc_error = STACK_UNDERFLOW\<rparr> \<and>
   (b \<noteq> 0 \<longrightarrow> apply_operator ''!'' a b ec = Inr (0, INVALID_OPERATOR))"
  by (simp add: evaluate_defs operator_defs fact_loop.simps)

text \<open>C1, amended, at the operands 5 and 2.\<close>

theorem C1_factorial_witness:
  "(2::real) \<noteq> 0 \<and> apply_operator ''!'' 5 2 SUCCESS = Inr (0, INVALID_OPERATOR)"
  using C1_factorial [of 2 5 SUCCESS] by simp

section \<open>Operators without enough operands\<close>

text \<open>
  C2, as the spec states it: a one-operand operator token met with an empty stack
  fails with \<^verbatim>\<open>StackUnderflow\<close>. It does not: the one-operand branch returns
  \<^verbatim>\<open>INVALID_OPERATOR\<close> (``Operator without operand'').
\<close>

theorem C2_counterexample:
  "evaluate_rpn (rpn_of [''sqrt'']) = Inr \<lparr>calc_value = 0, calc_error = INVALID_OPERATOR\<rparr> \<and>
   error_of (evaluate_rpn (rpn_of [''sqrt''])) \<noteq> Some STACK_UNDERFLOW"
  by (simp add: evaluate_defs error_of_def)

text \<open>
  C2, amended: an operator token reached after a prefix that ran through ends the
  evaluation with \<^verbatim>\<open>InvalidOperator\<close> when it is a one-operand token and the stack is
  empty, and with \<^verbatim>\<open>StackUnderflow\<close> when it is a two-operand token and the stack
  holds fewer than two values. With one value on the stack a one-operand token gives
  neither of the two codes, and with two values a two-operand token does not give
  \<^verbatim>\<open>StackUnderflow\<close>: the thresholds are one and two.
\<close>

theorem C2_operand_thresholds:
  assumes "is_operator token"
    and "evaluate_loop (length (pre @ token # post)) init_default_variables pre [] = Next stack"
  shows "(unary_token token \<and> stack = [] \<longrightarrow>
            evaluate_rpn (rpn_of (pre @ token # post)) =
              Inr \<lparr>calc_value = 0, calc_error = INVALID_OPERATOR\<rparr>) \<and>
         (\<not> unary_token token \<and> length stack < 2 \<longrightarrow>
            evaluate_rpn (rpn_of (pre @ token # post)) =
              Inr \<lparr>calc_value = 0, calc_error = STACK_UNDERFLOW\<rparr>) \<and>
         (unary_token token \<longrightarrow>
            evaluate_token n vars token (a # rest) \<noteq> Halt INVALID_OPERATOR \<and>
            evaluate_token n vars token (a # rest) \<noteq> Halt STACK_UNDERFLOW) \<and>
         (\<not> unary_token token \<longrightarrow>
            evaluate_token n vars token (b # a # rest) \<noteq> Halt STACK_UNDERFLOW)"
proof (intro conjI impI)
  assume "unary_token token \<and> stack = []"
  with assms show "evaluate_rpn (rpn_of (pre @ token # post)) =
      Inr \<lparr>calc_value = 0, calc_error = INVALID_OPERATOR\<rparr>"
    by (intro evaluate_rpn_halts [where stack = "[]"]) (simp_all add: unary_on_empty)
next
  assume "\<not> unary_token token \<and> length stack < 2"
  with assms show "evaluate_rpn (rpn_of (pre @ token # post)) =
      Inr \<lparr>calc_value = 0, calc_error = STACK_UNDERFLOW\<rparr>"
    by (intro evaluate_rpn_halts [where stack = stack]) (simp_all add: binary_underflow)
next
  assume "unary_token token"
  with assms(1) show "evaluate_token n vars token (a # rest) \<noteq> Halt INVALID_OPERATOR"
    and "evaluate_token n vars token (a # rest) \<noteq> Halt STACK_UNDERFLOW"
    by (simp_all add: unary_applied)
next
  assume "\<not> unary_token token"
  with assms(1) show "evaluate_token n vars token (b # a # rest) \<noteq> Halt STACK_UNDERFLOW"
    by (simp add: binary_applied)
qed

text \<open>C2, amended, at \<^verbatim>\<open>sqrt\<close> as first token and at \<^verbatim>\<open>+\<close> after one number.\<close>

theorem C2_operand_thresholds_witness:
  "evaluate_rpn (rpn_of [''sqrt'', ''9'']) = Inr \<lparr>calc_value = 0, calc_error = INVALID_OPERATOR\<rparr> \<and>
   evaluate_rpn (rpn_of [''7'', ''+'']) = Inr \<lparr>calc_value = 0, calc_error = STACK_UNDERFLOW\<rparr>"
proof -
  have op1: "is_operator ''sqrt''" and un1: "unary_token ''sqrt''"
    by (simp_all add: classify_defs)
  have op2: "is_operator ''+''" and un2: "\<not> unary_token ''+''"
    by (simp_all add: classify_defs)
  have pre1: "evaluate_loop (length ([] @ ''sqrt'' # [''9''])) init_default_variables [] [] = Next []"
    by simp
  have pre2: "evaluate_loop (length ([''7''] @ ''+'' # [])) init_default_variables [''7''] [] = Next [7]"
    by (simp add: evaluate_defs)
  show ?thesis
    using C2_operand_thresholds [OF op1 pre1] C2_operand_thresholds [OF op2 pre2] un1 un2
    by simp
qed

section \<open>Pushes on a full stack\<close>

lemma evaluate_token_one:
  "length stack < 100 \<Longrightarrow> n \<le> 1000 \<Longrightarrow> evaluate_token n vars ''1'' stack = Next (1 # stack)"
  by (simp add: evaluate_token_def classify_defs limit_defs)

lemma evaluate_loop_ones:
  "k + length stack \<le> 100 \<Longrightarrow> n \<le> 1000 \<Longrightarrow>
   evaluate_loop n vars (replicate k ''1'') stack = Next (replicate k 1 @ stack)"
proof (induction k arbitrary: stack)
  case 0
  then show ?case by simp
next
  case (Suc k)
  then have "evaluate_loop n vars (replicate k ''1'') (1 # stack) = Next (replicate k 1 @ 1 # stack)"
    by simp
  with Suc.prems show ?case
    by (simp add: evaluate_token_one replicate_app_Cons_same)
qed

lemma infix_token_one:
  "length stack < 100 \<Longrightarrow> infix_token True ''1'' stack = Next (''1'' # stack)"
  by (simp add: infix_token_def is_operator_def limit_defs)

lemma infix_loop_ones:
  "k + length stack \<le> 100 \<Longrightarrow>
   infix_loop (\<lambda>i. True) i (replicate k ''1'') stack = Next (replicate k ''1'' @ stack)"
proof (induction k arbitrary: stack i)
  case 0
  then show ?case by simp
next
  case (Suc k)
  then have "infix_loop (\<lambda>i. True) (Suc i) (replicate k ''1'') (''1'' # stack)
               = Next (replicate k ''1'' @ ''1'' # stack)"
    by simp
  with Suc.prems show ?case
    by (simp add: infix_token_one replicate_app_Cons_same)
qed

text \<open>
  C3 says that every push on a stack holding 100 entries fails with \<^verbatim>\<open>StackMaximum\<close>,
  in the evaluator and in the converter. The code checks the capacity only where it
  pushes a number: after 100 numbers a further number gives \<^verbatim>\<open>STACK_MAXIMUM\<close>, but
  the variable \<^verbatim>\<open>pi\<close> is stored in \<^verbatim>\<open>stack[100]\<close>, and in the converter so is the
  101st operand.
\<close>

theorem C3_push_on_full_stack:
  "evaluate_rpn (rpn_of (replicate 100 ''1'' @ [''1''])) =
     Inr \<lparr>calc_value = 0, calc_error = STACK_MAXIMUM\<rparr> \<and>
   evaluate_rpn (rpn_of (replicate 100 ''1'' @ [''pi''])) = Inl StackOutOfBounds \<and>
   rpn_to_infix (\<lambda>i. True) (rpn_of (replicate 100 ''1'' @ [''1''])) = Inl StackOutOfBounds"
proof -
  have "evaluate_token 101 init_default_variables ''1'' (replicate 100 1) = Halt STACK_MAXIMUM"
    by (simp add: evaluate_token_def classify_defs limit_defs)
  moreover have "evaluate_token 101 init_default_variables ''pi'' (replicate 100 1)
      = Fault StackOutOfBounds"
    by (simp add: evaluate_token_def classify_defs limit_defs init_default_variables_def)
  moreover have "infix_token True ''1'' (replicate 100 ''1'') = Fault StackOutOfBounds"
    by (simp add: infix_token_def is_operator_def limit_defs)
  ultimately show ?thesis
    by (simp add: evaluate_rpn_def rpn_to_infix_def rpn_of_def evaluate_loop_append
        infix_loop_append evaluate_loop_ones infix_loop_ones)
qed

section \<open>The length of the expression\<close>

text \<open>
  The code \<^verbatim>\<open>EXPR_LENGHT_MAXIMUM\<close> comes from the number branch alone, and only for a
  length field above the maximum: an expression of at most 1000 tokens is never
  rejected for its length.
\<close>

lemma get_variable_value_code:
  "get_variable_value vars name SUCCESS = (v, ec) \<Longrightarrow> ec = SUCCESS \<or> ec = UNDEFINED_VARIABLE"
  by (induction vars) (auto split: if_splits)

lemma operator_never_length_error:
  assumes "is_operator token"
  shows "evaluate_token n vars token stack \<noteq> Halt EXPR_LENGHT_MAXIMUM"
  using assms unfolding is_operator_def
  apply (elim disjE)
  by (auto simp add: unary_token_def evaluate_token_def is_operator_def apply_operator_def
        split: sum.splits option.splits prod.splits list.splits dest: factorial_error)

lemma evaluate_token_length_error:
  assumes "evaluate_token n vars token stack = Halt EXPR_LENGHT_MAXIMUM"
  shows "MAX_EXPR_LENGTH < n"
proof (cases "is_operator token")
  case True
  with assms show ?thesis by (simp add: operator_never_length_error)
next
  case False
  with assms show ?thesis
    by (auto simp add: evaluate_token_def split: if_splits option.splits prod.splits
          dest: get_variable_value_code)
qed

lemma evaluate_loop_length_error:
  "evaluate_loop n vars tokens stack = Halt EXPR_LENGHT_MAXIMUM \<Longrightarrow> MAX_EXPR_LENGTH < n"
  by (induction tokens arbitrary: stack)
     (auto split: flow.splits dest: evaluate_token_length_error)

lemma within_limit_never_length_error:
  assumes "length tokens \<le> MAX_EXPR_LENGTH"
  shows "error_of (evaluate_rpn (rpn_of tokens)) \<noteq> Some EXPR_LENGHT_MAXIMUM"
  using assms evaluate_loop_length_error [of "length tokens" init_default_variables tokens "[]"]
  by (auto simp add: evaluate_rpn_def rpn_of_def error_of_def split: flow.splits list.splits)

text \<open>Any number of pairs \<^verbatim>\<open>e +\<close> takes a stack of one value to a stack of one value.\<close>

lemma evaluate_loop_e_plus:
  "\<exists>w. evaluate_loop n init_default_variables (concat (replicate k [''e'', ''+''])) [v] = Next [w]"
proof (induction k arbitrary: v)
  case 0
  then show ?case by simp
next
  case (Suc k)
  let ?r = "round_to_9_decimals (v + M_E)"
  have two: "evaluate_loop n init_default_variables [''e'', ''+''] [v] = Next [?r]"
    by (simp add: evaluate_token_def classify_defs limit_defs init_default_variables_def
        apply_operator_def)
  have "concat (replicate (Suc k) [''e'', ''+'']) = [''e'', ''+''] @ concat (replicate k [''e'', ''+''])"
    by simp
  then have "evaluate_loop n init_default_variables (concat (replicate (Suc k) [''e'', ''+''])) [v]
      = evaluate_loop n init_default_variables (concat (replicate k [''e'', ''+''])) [?r]"
    by (simp only: evaluate_loop_append two flow.case)
  with Suc.IH [of ?r] show ?case
    by (simp only:)
qed

text \<open>
  C4 says that every sequence of 1001 tokens or more is rejected with
  \<^verbatim>\<open>ExpressionLengthMaximum\<close>. The code tests the length only after it has pushed a
  number: 1001 tokens \<^verbatim>\<open>+\<close> fail with \<^verbatim>\<open>StackUnderflow\<close>, and the 1001 tokens
  \<^verbatim>\<open>pi e + e + ... e +\<close>, which hold no number, are evaluated with \<^verbatim>\<open>Success\<close>.
\<close>

theorem C4_overlong_expression_not_rejected:
  "length (''+'' # replicate 1000 ''+'') = 1001 \<and>
   evaluate_rpn (rpn_of (''+'' # replicate 1000 ''+'')) =
     Inr \<lparr>calc_value = 0, calc_error = STACK_UNDERFLOW\<rparr> \<and>
   length (''pi'' # concat (replicate 500 [''e'', ''+''])) = 1001 \<and>
   error_of (evaluate_rpn (rpn_of (''pi'' # concat (replicate 500 [''e'', ''+''])))) = Some SUCCESS"
proof -
  have "evaluate_token 1001 init_default_variables ''+'' [] = Halt STACK_UNDERFLOW"
    by (simp add: evaluate_token_def classify_defs)
  then have a: "evaluate_rpn (rpn_of (''+'' # replicate 1000 ''+'')) =
     Inr \<lparr>calc_value = 0, calc_error = STACK_UNDERFLOW\<rparr>"
    by (simp add: evaluate_rpn_def rpn_of_def)
  have len: "length (concat (replicate 500 [''e'', ''+''])) = 1000"
    by (simp add: length_concat sum_list_replicate)
  have "evaluate_token 1001 init_default_variables ''pi'' [] = Next [M_PI]"
    by (simp add: evaluate_token_def classify_defs limit_defs init_default_variables_def)
  moreover obtain w where "evaluate_loop 1001 init_default_variables
      (concat (replicate 500 [''e'', ''+''])) [M_PI] = Next [w]"
    using evaluate_loop_e_plus by blast
  ultimately have "evaluate_rpn (rpn_of (''pi'' # concat (replicate 500 [''e'', ''+''])))
      = Inr \<lparr>calc_value = w, calc_error = SUCCESS\<rparr>"
    using len by (simp add: evaluate_rpn_def rpn_of_def)
  with a len show ?thesis
    by (simp add: error_of_def)
qed

section \<open>Tokens that are not numbers\<close>

text \<open>
  C5 says that \<^verbatim>\<open>is_number\<close> holds of a token exactly when the whole token parses as
  a floating-point literal, a trailing newline apart. The code does not test whether
  \<^verbatim>\<open>strtod\<close> converted anything: for the empty token, and for the token that is a
  single newline, no form of literal matches, \<^verbatim>\<open>endptr\<close> stays at the start, and the
  test on what \<^verbatim>\<open>endptr\<close> points to succeeds. The evaluator then pushes 0.0 for the
  empty token.
\<close>

theorem C5_empty_token_classified_as_number:
  "is_number [] \<and> is_number [CHR 0x0A] \<and>
   scan_hex [] = None \<and> scan_decimal [] = None \<and> scan_special [] = None \<and>
   evaluate_rpn (rpn_of [[]]) = Inr \<lparr>calc_value = 0, calc_error = SUCCESS\<rparr>"
  by (simp add: evaluate_defs)

lemma get_variable_value_unknown:
  "name \<noteq> ''pi'' \<Longrightarrow> name \<noteq> ''e'' \<Longrightarrow>
   get_variable_value init_default_variables name ec = (0, UNDEFINED_VARIABLE)"
  by (auto simp add: init_default_variables_def)

text \<open>
  C6: a token that is neither an operator nor a number takes the variable branch of
  the loop, whatever the stack; when it is not the name of one of the two variables
  and is reached after a prefix that ran through, the evaluation ends with
  \<^verbatim>\<open>UndefinedVariable\<close>, whatever follows.
\<close>

theorem C6_unknown_token_is_variable_reference:
  assumes "\<not> is_operator token" and "\<not> is_number token"
    and "evaluate_loop (length (pre @ token # post)) init_default_variables pre [] = Next stack"
  shows "evaluate_token n vars token stack =
           (case get_variable_value vars token SUCCESS of
              (v, ec) \<Rightarrow>
                if ec \<noteq> SUCCESS then Halt ec
                else if MAX_STACK_SIZE \<le> length stack then Fault StackOutOfBounds
                else Next (v # stack)) \<and>
         (token \<noteq> ''pi'' \<and> token \<noteq> ''e'' \<longrightarrow>
            evaluate_rpn (rpn_of (pre @ token # post)) =
              Inr \<lparr>calc_value = 0, calc_error = UNDEFINED_VARIABLE\<rparr>)"
proof (intro conjI impI)
  show "evaluate_token n vars token stack =
           (case get_variable_value vars token SUCCESS of
              (v, ec) \<Rightarrow>
                if ec \<noteq> SUCCESS then Halt ec
                else if MAX_STACK_SIZE \<le> length stack then Fault StackOutOfBounds
                else Next (v # stack))"
    using assms(1,2) by (simp add: evaluate_token_def)
next
  assume "token \<noteq> ''pi'' \<and> token \<noteq> ''e''"
  then have "evaluate_token (length (pre @ token # post)) init_default_variables token stack
      = Halt UNDEFINED_VARIABLE"
    using assms(1,2) by (simp add: evaluate_token_def get_variable_value_unknown)
  with assms(3) show "evaluate_rpn (rpn_of (pre @ token # post)) =
      Inr \<lparr>calc_value = 0, calc_error = UNDEFINED_VARIABLE\<rparr>"
    by (rule evaluate_rpn_halts)
qed

text \<open>C6 at the token \<^verbatim>\<open>%%\<close>, alone and between a number and an operator.\<close>

theorem C6_unknown_token_is_variable_reference_witness:
  "\<not> is_operator ''%%'' \<and> \<not> is_number ''%%'' \<and>
   evaluate_rpn (rpn_of [''%%'']) = Inr \<lparr>calc_value = 0, calc_error = UNDEFINED_VARIABLE\<rparr> \<and>
   evaluate_rpn (rpn_of [''2'', ''%%'', ''+'']) =
     Inr \<lparr>calc_value = 0, calc_error = UNDEFINED_VARIABLE\<rparr>"
proof -
  have op: "\<not> is_operator ''%%''" and num: "\<not> is_number ''%%''"
    by (simp_all add: classify_defs)
  have first: "evaluate_loop (length ([] @ ''%%'' # [])) init_default_variables [] [] = Next []"
    by simp
  have second: "evaluate_loop (length ([''2''] @ ''%%'' # [''+''])) init_default_variables [''2''] []
      = Next [2]"
    by (simp add: evaluate_defs)
  show ?thesis
    using C6_unknown_token_is_variable_reference [OF op num first]
      C6_unknown_token_is_variable_reference [OF op num second] op num
    by simp
qed

section \<open>Infix rendering of two examples\<close>

text \<open>
  C7: when every allocation succeeds, \<^verbatim>\<open>["2","3","*","4","+"]\<close> converts to
  \<^verbatim>\<open>2 * 3 + 4\<close> and \<^verbatim>\<open>["2","3","4","*","+"]\<close> to \<^verbatim>\<open>2 + 3 * 4\<close>, both with
  \<^verbatim>\<open>Success\<close> and without parentheses.
\<close>

theorem C7_infix_without_superfluous_parentheses:
  "rpn_to_infix (\<lambda>i. True) (rpn_of [''2'', ''3'', ''*'', ''4'', ''+'']) =
     Inr \<lparr>conv_expression = ''2 * 3 + 4'', conv_error = SUCCESS\<rparr> \<and>
   rpn_to_infix (\<lambda>i. True) (rpn_of [''2'', ''3'', ''4'', ''*'', ''+'']) =
     Inr \<lparr>conv_expression = ''2 + 3 * 4'', conv_error = SUCCESS\<rparr>"
  by (simp add: infix_defs)

section \<open>Operators in the converter\<close>

lemma infix_operator_underflow:
  "is_operator token \<Longrightarrow> length stack < 2 \<Longrightarrow> infix_token ok token stack = Halt STACK_UNDERFLOW"
  by (cases stack; cases "tl stack") (auto simp add: infix_token_def)

lemma sqrt_nine: "sqrt 9 = (3::real)"
  by (rule real_sqrt_unique) simp_all

text \<open>
  C8: in the converter every operator token returns \<^verbatim>\<open>StackUnderflow\<close> on a stack of
  fewer than two partial expressions, and otherwise (its allocation succeeding) replaces
  the top \<open>b\<close> and the one below it \<open>a\<close> by their combination; so an operator reached
  after a prefix that left fewer than two expressions ends the conversion with
  \<^verbatim>\<open>StackUnderflow\<close>. \<^verbatim>\<open>sqrt\<close> is such a token: \<^verbatim>\<open>["9","sqrt"]\<close> fails in the
  converter and evaluates to 3 in the evaluator.
\<close>

theorem C8_infix_operator_needs_two:
  assumes "is_operator token"
  shows "(length stack < 2 \<longrightarrow> infix_token ok token stack = Halt STACK_UNDERFLOW) \<and>
         infix_token True token (b # a # rest) = Next (combine a token b # rest) \<and>
         (infix_loop malloc_ok 0 pre [] = Next stack \<and> length stack < 2 \<longrightarrow>
            rpn_to_infix malloc_ok (rpn_of (pre @ token # post)) =
              Inr \<lparr>conv_expression = [], conv_error = STACK_UNDERFLOW\<rparr>) \<and>
         is_operator ''sqrt'' \<and>
         rpn_to_infix (\<lambda>i. True) (rpn_of [''9'', ''sqrt'']) =
           Inr \<lparr>conv_expression = [], conv_error = STACK_UNDERFLOW\<rparr> \<and>
         evaluate_rpn (rpn_of [''9'', ''sqrt'']) = Inr \<lparr>calc_value = 3, calc_error = SUCCESS\<rparr>"
proof (intro conjI impI)
  show "infix_token ok token stack = Halt STACK_UNDERFLOW" if "length stack < 2"
    using assms that by (rule infix_operator_underflow)
  show "infix_token True token (b # a # rest) = Next (combine a token b # rest)"
    using assms by (simp add: infix_token_def)
  show "rpn_to_infix malloc_ok (rpn_of (pre @ token # post)) =
          Inr \<lparr>conv_expression = [], conv_error = STACK_UNDERFLOW\<rparr>"
    if "infix_loop malloc_ok 0 pre [] = Next stack \<and> length stack < 2"
    using assms that by (intro rpn_to_infix_halts [where stack = stack])
      (simp_all add: infix_operator_underflow)
  show "is_operator ''sqrt''"
    by (simp add: is_operator_def)
  show "rpn_to_infix (\<lambda>i. True) (rpn_of [''9'', ''sqrt'']) =
          Inr \<lparr>conv_expression = [], conv_error = STACK_UNDERFLOW\<rparr>"
    by (simp add: infix_defs)
  show "evaluate_rpn (rpn_of [''9'', ''sqrt'']) = Inr \<lparr>calc_value = 3, calc_error = SUCCESS\<rparr>"
    by (simp add: evaluate_defs operator_defs sqrt_nine)
qed

text \<open>C8 at the token \<^verbatim>\<open>sqrt\<close>, on one and on two partial expressions.\<close>

theorem C8_infix_operator_needs_two_witness:
  "infix_token True ''sqrt'' [''9''] = Halt STACK_UNDERFLOW \<and>
   infix_token True ''sqrt'' [''9'', ''4''] = Next [combine ''4'' ''sqrt'' ''9''] \<and>
   rpn_to_infix (\<lambda>i. True) (rpn_of ([''9''] @ ''sqrt'' # [])) =
     Inr \<lparr>conv_expression = [], conv_error = STACK_UNDERFLOW\<rparr>"
proof -
  have op: "is_operator ''sqrt''"
    by (simp add: is_operator_def)
  have pre: "infix_loop (\<lambda>i. True) 0 [''9''] [] = Next [''9'']"
    by (simp add: infix_token_def is_operator_def limit_defs)
  show ?thesis
    using C8_infix_operator_needs_two [OF op, of "[''9'']" True "''9''" "''4''" "[]"
        "\<lambda>i. True" "[''9'']" "[]"] pre
    by simp
qed

text \<open>The formatted text always fits the buffer that \<^verbatim>\<open>snprintf\<close> is given.\<close>

lemma combine_untruncated:
  "combine a token b =
     (if needs_parentheses a (hd token) then [CHR ''(''] @ a @ [CHR '')''] else a) @
     [CHR '' '', hd token, CHR '' ''] @
     (if needs_parentheses b (hd token) then [CHR ''(''] @ b @ [CHR '')''] else b)"
  by (simp add: combine_def)

lemma no_parentheses_for_letter:
  "op \<notin> {CHR ''!'', CHR ''*'', CHR ''/'', CHR ''^''} \<Longrightarrow> \<not> needs_parentheses_scan expr op"
  by (induction expr) (auto simp add: of_char_not_sqrt_symbol)

text \<open>
  C9: the combination of two partial expressions is the first, the first character of
  the operator token between two spaces, and the second, each side in parentheses where
  \<^verbatim>\<open>needs_parentheses\<close> asks for them. For the token \<^verbatim>\<open>sqrt\<close> that character is
  \<^verbatim>\<open>s\<close>, and no side is in parentheses.
\<close>

theorem C9_first_character_of_operator_only:
  "combine a token b =
     (if needs_parentheses a (hd token) then [CHR ''(''] @ a @ [CHR '')''] else a) @
     [CHR '' '', hd token, CHR '' ''] @
     (if needs_parentheses b (hd token) then [CHR ''(''] @ b @ [CHR '')''] else b) \<and>
   infix_token True ''sqrt'' (b # a # rest) = Next ((a @ '' s '' @ b) # rest) \<and>
   rpn_to_infix (\<lambda>i. True) (rpn_of [''4'', ''9'', ''sqrt'']) =
     Inr \<lparr>conv_expression = ''4 s 9'', conv_error = SUCCESS\<rparr>"
proof -
  have "\<not> needs_parentheses x (CHR ''s'')" for x
    by (simp add: needs_parentheses_def no_parentheses_for_letter)
  then have "infix_token True ''sqrt'' (b # a # rest) = Next ((a @ '' s '' @ b) # rest)"
    by (simp add: infix_token_def is_operator_def combine_untruncated)
  moreover have "rpn_to_infix (\<lambda>i. True) (rpn_of [''4'', ''9'', ''sqrt'']) =
     Inr \<lparr>conv_expression = ''4 s 9'', conv_error = SUCCESS\<rparr>"
    by (simp add: infix_defs)
  ultimately show ?thesis
    by (simp add: combine_untruncated)
qed

section \<open>The reserved token \<^verbatim>\<open>ans\<close>\<close>

text \<open>
  C10: \<^verbatim>\<open>ans\<close> is an operator token and not one of the one-operand tokens. Reached
  after a prefix that ran through, it ends the evaluation: with
  \<^verbatim>\<open>StackUnderflow\<close> when fewer than two values are on the stack, and otherwise with
  \<^verbatim>\<open>InvalidOperator\<close>.
\<close>

theorem C10_ans_dispatched_as_binary:
  assumes "evaluate_loop (length (pre @ ''ans'' # post)) init_default_variables pre [] = Next stack"
  shows "is_operator ''ans'' \<and> \<not> unary_token ''ans'' \<and>
         evaluate_rpn (rpn_of (pre @ ''ans'' # post)) =
           Inr \<lparr>calc_value = 0,
                calc_error = (if length stack < 2 then STACK_UNDERFLOW else INVALID_OPERATOR)\<rparr>"
proof -
  have "evaluate_token n vars ''ans'' stack =
          Halt (if length stack < 2 then STACK_UNDERFLOW else INVALID_OPERATOR)" for n vars
    by (cases stack; cases "tl stack")
       (auto simp add: is_operator_def unary_token_def evaluate_token_def apply_operator_ans)
  with assms show ?thesis
    by (simp add: evaluate_rpn_halts is_operator_def unary_token_def)
qed

text \<open>C10 after the prefixes \<^verbatim>\<open>["1","2"]\<close> (two values) and \<^verbatim>\<open>["1"]\<close> (one value).\<close>

theorem C10_ans_dispatched_as_binary_witness:
  "evaluate_rpn (rpn_of [''1'', ''2'', ''ans'']) =
     Inr \<lparr>calc_value = 0, calc_error = INVALID_OPERATOR\<rparr> \<and>
   evaluate_rpn (rpn_of [''1'', ''ans'']) =
     Inr \<lparr>calc_value = 0, calc_error = STACK_UNDERFLOW\<rparr>"
proof -
  have two: "evaluate_loop (length ([''1'', ''2''] @ ''ans'' # [])) init_default_variables
               [''1'', ''2''] [] = Next [2, 1]"
    by (simp add: evaluate_defs)
  have one: "evaluate_loop (length ([''1''] @ ''ans'' # [])) init_default_variables
               [''1''] [] = Next [1]"
    by (simp add: evaluate_defs)
  show ?thesis
    using C10_ans_dispatched_as_binary [OF two] C10_ans_dispatched_as_binary [OF one] by simp
qed

end
